theory Spec2Isabelle
  imports Complex_Main
begin

section \<open>agenttrace: the run/step tracing core\<close>

text \<open>
  A shallow embedding of \<^verbatim>\<open>agenttrace/db.py\<close> (the SQLite store and
  \<^verbatim>\<open>RunRecorder\<close>), of \<^verbatim>\<open>agenttrace/tracer.py\<close> (the thread-local
  recorder slot, \<^verbatim>\<open>trace_event\<close> and the \<^verbatim>\<open>traced\<close> decorator) and of
  \<^verbatim>\<open>get_steps\<close> in \<^verbatim>\<open>agenttrace/viewer.py\<close>.

  Python exceptions are values: every operation returns an outcome together with the
  state it leaves behind, since what was written before a raise stays written.
\<close>

subsection \<open>Python values and exceptions\<close>

text \<open>
  The values user code hands to \<^verbatim>\<open>trace_event\<close> (annotated \<^verbatim>\<open>Dict[str, Any]\<close>).
  \<open>PObject n\<close> is an instance of a class \<open>n\<close> other than those listed (a set, a user
  class, bytes).
\<close>

datatype pyval =
    PNone
  | PBool bool
  | PInt int
  | PFloat rat
  | PStr string
  | PList "pyval list"
  | PDict "(string \<times> pyval) list"
  | PObject string

text \<open>
  The exceptions that occur: those of the serialiser (\<^verbatim>\<open>TypeError\<close>,
  \<^verbatim>\<open>ValueError\<close>, \<^verbatim>\<open>RecursionError\<close>), the assertion of \<^verbatim>\<open>log_step\<close>, the
  two of \<^verbatim>\<open>sqlite3\<close>, and whatever user code raises (class name and message).
\<close>

datatype exn =
    TypeError
  | ValueError
  | RecursionError
  | AssertionError
  | ProgrammingError
  | OperationalError
  | UserError string string

datatype 'a outcome = Return 'a | Raise exn

text \<open>\<^verbatim>\<open>type(result).__name__\<close>\<close>

fun type_name :: "pyval \<Rightarrow> string" where
  "type_name PNone = ''NoneType''"
| "type_name (PBool b) = ''bool''"
| "type_name (PInt i) = ''int''"
| "type_name (PFloat x) = ''float''"
| "type_name (PStr s) = ''str''"
| "type_name (PList xs) = ''list''"
| "type_name (PDict kvs) = ''dict''"
| "type_name (PObject n) = n"

text \<open>
  \<^verbatim>\<open>json.dumps\<close> and \<^verbatim>\<open>json.loads\<close> are library code. They are parameters of the
  model: \<open>dumps\<close> maps a value to the text or to the exception the encoder raises on it,
  \<open>loads\<close> maps a text to the decoded value or to \<open>None\<close> when the decoder raises. Every
  theorem below holds for every encoder and every decoder.
\<close>

type_synonym encoder = "pyval \<Rightarrow> string outcome"

subsection \<open>The store: tables \<^verbatim>\<open>runs\<close> and \<^verbatim>\<open>steps\<close>\<close>

text \<open>
  Timestamps are the instants \<^verbatim>\<open>datetime.utcnow()\<close> returns, counted in microseconds.
  The column holds their ISO-8601 text, whose text order is the order of the instants.
  The \<^verbatim>\<open>TEXT\<close> columns \<^verbatim>\<open>kind\<close> and \<^verbatim>\<open>payload\<close> hold the bytes stored in the
  database file.
\<close>

type_synonym timestamp = nat

record run_row =
  r_id :: nat
  r_func_name :: string
  r_start_ts :: timestamp
  r_end_ts :: "timestamp option"
  r_git_sha :: string

record step_row =
  s_id :: nat
  s_run_id :: nat
  s_ts :: timestamp
  s_kind :: string
  s_payload :: string

text \<open>
  \<^verbatim>\<open>RunRecorder\<close>: the object's attributes. \<open>conn_open\<close> is the state of its own
  \<^verbatim>\<open>sqlite3\<close> connection.
\<close>

record recorder =
  func_name :: string
  git_sha :: string
  conn_open :: bool
  run_id :: "nat option"

text \<open>
  The process and its environment: the two tables with their \<^verbatim>\<open>AUTOINCREMENT\<close>
  counters; the readings of \<^verbatim>\<open>datetime.utcnow()\<close> (an oracle \<open>clock\<close>, read at
  position \<open>ticks\<close>) and those of \<^verbatim>\<open>time.time()\<close> (an oracle \<open>timer\<close>, in seconds,
  read at position \<open>timer_ticks\<close>); the output of \<^verbatim>\<open>git rev-parse HEAD\<close> (\<open>None\<close>
  when the command cannot be run or returns a nonzero code); and the thread-local slot
  \<^verbatim>\<open>_context.recorder\<close> of the one thread that runs.
\<close>

record world =
  runs :: "run_row list"
  steps :: "step_row list"
  runs_seq :: nat
  steps_seq :: nat
  clock :: "nat \<Rightarrow> timestamp"
  ticks :: nat
  timer :: "nat \<Rightarrow> rat"
  timer_ticks :: nat
  git_head :: "string option"
  ctx_recorder :: "recorder option"

definition utcnow :: "world \<Rightarrow> timestamp \<times> world" where
  "utcnow w = (clock w (ticks w), w\<lparr>ticks := Suc (ticks w)\<rparr>)"

definition time_time :: "world \<Rightarrow> rat \<times> world" where
  "time_time w = (timer w (timer_ticks w), w\<lparr>timer_ticks := Suc (timer_ticks w)\<rparr>)"

subsection \<open>\<^verbatim>\<open>db.py\<close>: RunRecorder\<close>

text \<open>\<^verbatim>\<open>self.git_sha = git_sha or "unknown"\<close>; the new connection is open, no run yet.\<close>

definition RunRecorder_init :: "string \<Rightarrow> string option \<Rightarrow> recorder" where
  "RunRecorder_init name sha =
     \<lparr>func_name = name,
      git_sha = (case sha of None \<Rightarrow> ''unknown'' | Some s \<Rightarrow> if s = [] then ''unknown'' else s),
      conn_open = True,
      run_id = None\<rparr>"

text \<open>
  \<^verbatim>\<open>INTEGER PRIMARY KEY AUTOINCREMENT\<close>: the id of a new row is one more than the
  largest id the table has ever held, which is the larger of the counter SQLite keeps for
  the table and the largest id now in it.
\<close>

definition next_run_id :: "world \<Rightarrow> nat" where
  "next_run_id w = Suc (fold max (map r_id (runs w)) (runs_seq w))"

definition next_step_id :: "world \<Rightarrow> nat" where
  "next_step_id w = Suc (fold max (map s_id (steps w)) (steps_seq w))"

text \<open>
  \<^verbatim>\<open>__enter__\<close>: \<^verbatim>\<open>self.conn.cursor()\<close> raises on a closed connection before the
  clock is read; otherwise one row is inserted with the next id and no end timestamp.
\<close>

definition enter :: "recorder \<Rightarrow> world \<Rightarrow> unit outcome \<times> recorder \<times> world" where
  "enter r w =
     (if \<not> conn_open r then (Raise ProgrammingError, r, w)
      else
        let (now, w1) = utcnow w;
            new_id = next_run_id w1;
            row = \<lparr>r_id = new_id, r_func_name = func_name r, r_start_ts = now,
                   r_end_ts = None, r_git_sha = git_sha r\<rparr>
        in (Return (), r\<lparr>run_id := Some new_id\<rparr>,
            w1\<lparr>runs := runs w1 @ [row], runs_seq := new_id\<rparr>))"

text \<open>
  \<^verbatim>\<open>log_step\<close>: the assertion first; then the arguments of \<^verbatim>\<open>execute\<close> are
  evaluated (the clock is read) and the call raises on a closed connection. The
  \<^verbatim>\<open>FOREIGN KEY\<close> clause of the schema is not enforced by SQLite unless
  \<^verbatim>\<open>PRAGMA foreign_keys\<close> is switched on, which \<^verbatim>\<open>_connect\<close> never does: the
  insert does not look at table \<^verbatim>\<open>runs\<close>.
\<close>

definition log_step :: "recorder \<Rightarrow> string \<Rightarrow> string \<Rightarrow> world \<Rightarrow> unit outcome \<times> world" where
  "log_step r kind payload w =
     (case run_id r of
        None \<Rightarrow> (Raise AssertionError, w)
      | Some rid \<Rightarrow>
          let (now, w1) = utcnow w in
          if \<not> conn_open r then (Raise ProgrammingError, w1)
          else
            let new_id = next_step_id w1;
                row = \<lparr>s_id = new_id, s_run_id = rid, s_ts = now, s_kind = kind,
                       s_payload = payload\<rparr>
            in (Return (), w1\<lparr>steps := steps w1 @ [row], steps_seq := new_id\<rparr>))"

text \<open>
  \<^verbatim>\<open>__exit__\<close>: \<^verbatim>\<open>UPDATE runs SET end_ts=? WHERE id=?\<close>, then the connection is
  closed. With \<^verbatim>\<open>run_id\<close> unset the comparison is with NULL and matches no row.
  The method returns \<^verbatim>\<open>None\<close>, so an exception in flight is not suppressed.
\<close>

definition close_run :: "nat option \<Rightarrow> timestamp \<Rightarrow> run_row \<Rightarrow> run_row" where
  "close_run rid now row = (if Some (r_id row) = rid then row\<lparr>r_end_ts := Some now\<rparr> else row)"

definition exit_rec :: "recorder \<Rightarrow> world \<Rightarrow> unit outcome \<times> recorder \<times> world" where
  "exit_rec r w =
     (let (now, w1) = utcnow w in
      if \<not> conn_open r then (Raise ProgrammingError, r, w1)
      else (Return (), r\<lparr>conn_open := False\<rparr>,
            w1\<lparr>runs := map (close_run (run_id r) now) (runs w1)\<rparr>))"

subsection \<open>\<^verbatim>\<open>tracer.py\<close>: the recorder slot, trace_event and the decorator\<close>

definition get_current_recorder :: "world \<Rightarrow> recorder option" where
  "get_current_recorder w = ctx_recorder w"

text \<open>
  \<^verbatim>\<open>trace_event\<close>: a \<^verbatim>\<open>RunRecorder\<close> defines neither \<^verbatim>\<open>__bool__\<close> nor
  \<^verbatim>\<open>__len__\<close>, so \<^verbatim>\<open>if recorder:\<close> tests for \<^verbatim>\<open>None\<close>. The payload is
  serialised before \<^verbatim>\<open>log_step\<close> is entered; nothing catches what
  \<^verbatim>\<open>json.dumps\<close> raises.
\<close>

definition trace_event :: "encoder \<Rightarrow> string \<Rightarrow> pyval \<Rightarrow> world \<Rightarrow> unit outcome \<times> world" where
  "trace_event dumps event_type data w =
     (case get_current_recorder w of
        None \<Rightarrow> (Return (), w)
      | Some recorder \<Rightarrow>
          (case dumps data of
             Raise e \<Rightarrow> (Raise e, w)
           | Return payload \<Rightarrow> log_step recorder event_type payload w))"

text \<open>
  \<^verbatim>\<open>str.strip()\<close>: the characters of the output are code points below 256, of which
  these are white space for Python.
\<close>

definition is_space :: "char \<Rightarrow> bool" where
  "is_space c = ((of_char c :: nat) \<in> {9, 10, 11, 12, 13, 28, 29, 30, 31, 32, 133, 160})"

definition strip :: "string \<Rightarrow> string" where
  "strip s = rev (dropWhile is_space (rev (dropWhile is_space s)))"

definition get_git_sha :: "world \<Rightarrow> string" where
  "get_git_sha w = (case git_head w of Some out \<Rightarrow> take 8 (strip out) | None \<Rightarrow> ''unknown'')"

text \<open>The two dictionaries that \<^verbatim>\<open>wrapper\<close> itself emits.\<close>

definition start_payload :: "string \<Rightarrow> string \<Rightarrow> pyval" where
  "start_payload args_s kwargs_s =
     PDict [(''args'', PStr (take 100 args_s)), (''kwargs'', PStr (take 100 kwargs_s))]"

definition end_payload :: "rat \<Rightarrow> pyval \<Rightarrow> pyval" where
  "end_payload duration result =
     PDict [(''duration'', PFloat duration), (''result_type'', PStr (type_name result))]"

text \<open>
  The body of the \<^verbatim>\<open>with recorder:\<close> block of \<^verbatim>\<open>wrapper\<close>. \<open>func\<close> is the wrapped
  callable applied to its arguments; \<open>args_s\<close> and \<open>kwargs_s\<close> are \<^verbatim>\<open>str(args)\<close> and
  \<^verbatim>\<open>str(kwargs)\<close>. The duration is the difference of two readings of
  \<^verbatim>\<open>time.time()\<close>, taken as exact.
\<close>

definition with_block ::
  "encoder \<Rightarrow> string \<Rightarrow> string \<Rightarrow> (world \<Rightarrow> pyval outcome \<times> world) \<Rightarrow> world
     \<Rightarrow> pyval outcome \<times> world" where
  "with_block dumps args_s kwargs_s func w =
     (case trace_event dumps ''function_start'' (start_payload args_s kwargs_s) w of
        (Raise e, w1) \<Rightarrow> (Raise e, w1)
      | (Return u, w1) \<Rightarrow>
          let (start_time, w2) = time_time w1 in
          (case func w2 of
             (Raise e, w3) \<Rightarrow> (Raise e, w3)
           | (Return result, w3) \<Rightarrow>
               let (end_time, w4) = time_time w3;
                   duration = end_time - start_time
               in (case trace_event dumps ''function_end'' (end_payload duration result) w4 of
                     (Raise e, w5) \<Rightarrow> (Raise e, w5)
                   | (Return u', w5) \<Rightarrow> (Return result, w5))))"

text \<open>
  \<^verbatim>\<open>traced(func)\<close> applied to its arguments. The slot and the local variable
  \<^verbatim>\<open>recorder\<close> name one object: what \<^verbatim>\<open>__enter__\<close> writes to it (the run id)
  is seen through the slot, so the slot is given the entered recorder. \<^verbatim>\<open>__exit__\<close>
  runs on both ways out of the block and an exception it raises replaces the one in
  flight; the \<^verbatim>\<open>finally\<close> clause then puts the old recorder back.
\<close>

definition wrapper ::
  "encoder \<Rightarrow> string \<Rightarrow> string \<Rightarrow> string \<Rightarrow> (world \<Rightarrow> pyval outcome \<times> world) \<Rightarrow> world
     \<Rightarrow> pyval outcome \<times> world" where
  "wrapper dumps name args_s kwargs_s func w =
     (let recorder = RunRecorder_init name (Some (get_git_sha w));
          old_recorder = ctx_recorder w;
          w1 = w\<lparr>ctx_recorder := Some recorder\<rparr>
      in case enter recorder w1 of
           (Raise e, recorder1, w2) \<Rightarrow> (Raise e, w2\<lparr>ctx_recorder := old_recorder\<rparr>)
         | (Return u, recorder1, w2) \<Rightarrow>
             let (out, w3) = with_block dumps args_s kwargs_s func
                               (w2\<lparr>ctx_recorder := Some recorder1\<rparr>)
             in (case exit_rec recorder1 w3 of
                   (Raise e, recorder2, w4) \<Rightarrow> (Raise e, w4\<lparr>ctx_recorder := old_recorder\<rparr>)
                 | (Return u', recorder2, w4) \<Rightarrow> (out, w4\<lparr>ctx_recorder := old_recorder\<rparr>)))"

lemma wrapper_cong [fundef_cong]:
  "\<lbrakk>w = w'; dumps = dumps'; name = name'; a = a'; k = k'; \<And>v. func v = func' v\<rbrakk>
   \<Longrightarrow> wrapper dumps name a k func w = wrapper dumps' name' a' k' func' w'"
proof -
  assume h: "w = w'" "dumps = dumps'" "name = name'" "a = a'" "k = k'" "\<And>v. func v = func' v"
  from h(6) have "func = func'" by (rule ext)
  with h show ?thesis by simp
qed

subsection \<open>User code\<close>

text \<open>
  What a wrapped callable can do to the tracing core: emit events, call other traced
  callables, raise, and catch what was raised. \<open>CallTraced name args_s kwargs_s body result\<close>
  calls the \<^verbatim>\<open>@traced\<close> function \<open>name\<close> whose body is \<open>body\<close> and which returns
  \<open>result\<close> when its body completes. \<open>TryExcept body handler\<close> is
  \<^verbatim>\<open>try: body except Exception: handler\<close>.
\<close>

datatype stmt =
    TraceEvent string pyval
  | CallTraced string string string "stmt list" pyval
  | RaiseExc exn
  | TryExcept "stmt list" "stmt list"

fun exec_stmt :: "encoder \<Rightarrow> stmt \<Rightarrow> world \<Rightarrow> unit outcome \<times> world"
and exec_stmts :: "encoder \<Rightarrow> stmt list \<Rightarrow> world \<Rightarrow> unit outcome \<times> world" where
  "exec_stmt dumps (TraceEvent kind data) w = trace_event dumps kind data w"
| "exec_stmt dumps (CallTraced name args_s kwargs_s body result) w =
     (case wrapper dumps name args_s kwargs_s
             (\<lambda>v. case exec_stmts dumps body v of
                     (Raise e, v') \<Rightarrow> (Raise e, v')
                   | (Return u, v') \<Rightarrow> (Return result, v')) w of
        (Raise e, w') \<Rightarrow> (Raise e, w')
      | (Return res, w') \<Rightarrow> (Return (), w'))"
| "exec_stmt dumps (RaiseExc e) w = (Raise e, w)"
| "exec_stmt dumps (TryExcept body handler) w =
     (case exec_stmts dumps body w of
        (Raise e, w') \<Rightarrow> exec_stmts dumps handler w'
      | (Return u, w') \<Rightarrow> (Return (), w'))"
| "exec_stmts dumps [] w = (Return (), w)"
| "exec_stmts dumps (s # ss) w =
     (case exec_stmt dumps s w of
        (Raise e, w') \<Rightarrow> (Raise e, w')
      | (Return u, w') \<Rightarrow> exec_stmts dumps ss w')"


subsection \<open>\<^verbatim>\<open>viewer.py\<close>: get_steps\<close>








definition select_steps :: "nat \<Rightarrow> world \<Rightarrow> step_row list" where
  "select_steps rid w = sort_key s_ts (filter (\<lambda>row. s_run_id row = rid) (steps w))"


subsection \<open>Concrete states\<close>

text \<open>
  The state \<^verbatim>\<open>init_db\<close> leaves on a new database file, no recorder active, with the
  given clock.
\<close>

definition new_world :: "(nat \<Rightarrow> timestamp) \<Rightarrow> world" where
  "new_world clk =
     \<lparr>runs = [], steps = [], runs_seq = 0, steps_seq = 0, clock = clk, ticks = 0,
      timer = of_nat, timer_ticks = 0, git_head = None, ctx_recorder = None\<rparr>"

text \<open>A recorder that has entered its run on a new database, and the state it left.\<close>

definition entered_recorder :: recorder where
  "entered_recorder = fst (snd (enter (RunRecorder_init ''f'' None) (new_world (\<lambda>n. n))))"

definition entered_world :: world where
  "entered_world = snd (snd (enter (RunRecorder_init ''f'' None) (new_world (\<lambda>n. n))))"

text \<open>The same recorder installed in the slot, on a database with the given clock.\<close>

definition active_world :: "(nat \<Rightarrow> timestamp) \<Rightarrow> world" where
  "active_world clk =
     (snd (snd (enter (RunRecorder_init ''f'' None) (new_world clk))))
       \<lparr>ctx_recorder := Some entered_recorder\<rparr>"

text \<open>The recorder and the state after \<^verbatim>\<open>__exit__\<close> has run once.\<close>

definition closed_recorder :: recorder where
  "closed_recorder = fst (snd (exit_rec entered_recorder entered_world))"

definition closed_world :: world where
  "closed_world = snd (snd (exit_rec entered_recorder entered_world))"




text \<open>
  An encoder for the examples. It behaves as \<^verbatim>\<open>json.dumps\<close> does on the values the
  examples use: it raises \<^verbatim>\<open>TypeError\<close> on a value that holds an object of a class
  without an encoding. The text it returns is a placeholder.
\<close>

fun holds_object :: "pyval \<Rightarrow> bool" where
  "holds_object (PObject n) = True"
| "holds_object (PList xs) = list_ex holds_object xs"
| "holds_object (PDict kvs) = list_ex holds_object (map snd kvs)"
| "holds_object v = False"

definition example_dumps :: encoder where
  "example_dumps d = (if holds_object d then Raise TypeError else Return ''{}'')"













subsection \<open>Derived notions used in the statements\<close>


text \<open>
  The state in which \<open>wrapper\<close> enters the \<^verbatim>\<open>with\<close> block: the recorder is created,
  installed in the slot and entered.
\<close>

definition entered_state :: "string \<Rightarrow> world \<Rightarrow> world" where
  "entered_state name w =
     (let recorder = RunRecorder_init name (Some (get_git_sha w));
          (u, recorder1, w2) = enter recorder (w\<lparr>ctx_recorder := Some recorder\<rparr>)
      in w2\<lparr>ctx_recorder := Some recorder1\<rparr>)"


text \<open>The recorder of a call of \<open>wrapper\<close> once entered, as the slot holds it during the call.\<close>

definition call_recorder :: "string \<Rightarrow> world \<Rightarrow> recorder" where
  "call_recorder name w =
     (RunRecorder_init name (Some (get_git_sha w)))\<lparr>run_id := Some (next_run_id w)\<rparr>"

text \<open>
  The way out of \<open>wrapper\<close> from the state \<open>v\<close> the block ended in: \<^verbatim>\<open>__exit__\<close> on the
  call's recorder, then the \<^verbatim>\<open>finally\<close> clause.
\<close>

definition wrapper_finish :: "world \<Rightarrow> world \<Rightarrow> world" where
  "wrapper_finish w v =
     v\<lparr>ticks := Suc (ticks v),
       runs := map (close_run (Some (next_run_id w)) (clock v (ticks v))) (runs v),
       ctx_recorder := ctx_recorder w\<rparr>"

text \<open>The columns of a run that no statement of the code ever updates.\<close>

definition r_key :: "run_row \<Rightarrow> nat \<times> string \<times> timestamp \<times> string" where
  "r_key row = (r_id row, r_func_name row, r_start_ts row, r_git_sha row)"

text \<open>
  Referential integrity: every step belongs to a run of the table, and so does the run
  id of the recorder in the slot.
\<close>

definition ctx_run_id :: "world \<Rightarrow> nat option" where
  "ctx_run_id w = (case ctx_recorder w of None \<Rightarrow> None | Some r \<Rightarrow> run_id r)"





section \<open>Properties\<close>

subsection \<open>Concrete states, evaluated\<close>

lemma entered_recorder_simp:
  "entered_recorder = \<lparr>func_name = ''f'', git_sha = ''unknown'', conn_open = True, run_id = Some 1\<rparr>"
  by (simp add: entered_recorder_def enter_def next_run_id_def Let_def RunRecorder_init_def new_world_def utcnow_def)



subsection \<open>Emitting outside a session\<close>

text \<open>
  Claim C6. When no recorder is active in the calling thread, \<^verbatim>\<open>trace_event\<close> returns
  normally and leaves the whole state as it was: nothing is written to the store and
  nothing is raised, whatever the data (it is not even serialised).
\<close>

theorem trace_event_no_recorder:
  "ctx_recorder w = None \<Longrightarrow> trace_event dumps kind data w = (Return (), w)"
  by (simp add: trace_event_def get_current_recorder_def)

theorem trace_event_no_recorder_witness:
  "ctx_recorder (new_world (\<lambda>n. n)) = None \<and>
   example_dumps (PObject ''set'') = Raise TypeError \<and>
   trace_event example_dumps ''llm_start'' (PObject ''set'') (new_world (\<lambda>n. n))
     = (Return (), new_world (\<lambda>n. n))"
  using trace_event_no_recorder
          [of "new_world (\<lambda>n. n)" example_dumps "''llm_start''" "PObject ''set''"]
  by (simp add: new_world_def example_dumps_def)

subsection \<open>Appending after close\<close>




lemma first_exit:
  "exit_rec entered_recorder entered_world = (Return (), closed_recorder, closed_world)"
  by (simp add: closed_recorder_def closed_world_def exit_rec_def utcnow_def entered_recorder_simp)


subsection \<open>Closing twice\<close>

text \<open>
  Claim C4, as stated: a second close is a no-op. It is not: on the recorder and state
  left by a first \<^verbatim>\<open>__exit__\<close>, the second \<^verbatim>\<open>__exit__\<close> raises
  \<^verbatim>\<open>ProgrammingError\<close>.
\<close>

theorem second_exit_counterexample:
  "fst (exit_rec entered_recorder entered_world) = Return () \<and>
   fst (exit_rec closed_recorder closed_world) = Raise ProgrammingError"
  by (simp add: closed_recorder_def closed_world_def exit_rec_def utcnow_def entered_recorder_simp)

text \<open>
  Claim C4, amended. After a first close, a second close raises the
  \<^verbatim>\<open>ProgrammingError\<close> of the closed connection and changes neither the recorder nor
  the tables (only the clock was read), so the end timestamp of the run is the one the
  first close wrote.
\<close>

theorem second_exit_raises:
  assumes "exit_rec r w = (Return (), r', w')"
  shows "exit_rec r' w' = (Raise ProgrammingError, r', w'\<lparr>ticks := Suc (ticks w')\<rparr>)"
proof -
  from assms have "\<not> conn_open r'"
    by (auto simp: exit_rec_def utcnow_def split: if_splits)
  then show ?thesis by (simp add: exit_rec_def utcnow_def)
qed

theorem second_exit_raises_witness:
  "exit_rec entered_recorder entered_world = (Return (), closed_recorder, closed_world) \<and>
   exit_rec closed_recorder closed_world
     = (Raise ProgrammingError, closed_recorder,
        closed_world\<lparr>ticks := Suc (ticks closed_world)\<rparr>)"
  using second_exit_raises [OF first_exit] first_exit by simp

subsection \<open>Emitting data that cannot be serialised\<close>

text \<open>
  Claim C3, as stated: the failure does not reach the caller and an event of kind
  \<^verbatim>\<open>encoding_error\<close> is recorded. With a recorder active and a set inside the data,
  on which the encoder raises \<^verbatim>\<open>TypeError\<close>, \<^verbatim>\<open>trace_event\<close> raises that
  \<^verbatim>\<open>TypeError\<close> and the table holds no such event.
\<close>

theorem trace_event_unserializable_counterexample:
  "ctx_recorder (active_world (\<lambda>n. n)) \<noteq> None \<and>
   example_dumps (PDict [(''tools'', PObject ''set'')]) = Raise TypeError \<and>
   fst (trace_event example_dumps ''agent_action'' (PDict [(''tools'', PObject ''set'')])
          (active_world (\<lambda>n. n))) = Raise TypeError \<and>
   filter (\<lambda>s. s_kind s = ''encoding_error'')
     (steps (snd (trace_event example_dumps ''agent_action'' (PDict [(''tools'', PObject ''set'')])
                    (active_world (\<lambda>n. n))))) = []"
  by (simp add: active_world_def trace_event_def get_current_recorder_def example_dumps_def
        enter_def next_run_id_def Let_def utcnow_def RunRecorder_init_def new_world_def)

text \<open>
  Claim C3, amended. Inside an active session, when the encoder raises on the data
  (whatever exception that is), \<^verbatim>\<open>trace_event\<close> records nothing at all, neither the
  event nor a placeholder: the state is left as it was, and that same exception is raised
  to the code that called \<^verbatim>\<open>trace_event\<close>.
\<close>

theorem trace_event_unserializable:
  assumes "ctx_recorder w = Some r" and "dumps data = Raise e"
  shows "trace_event dumps kind data w = (Raise e, w)"
  using assms by (simp add: trace_event_def get_current_recorder_def)

theorem trace_event_unserializable_witness:
  "ctx_recorder (active_world (\<lambda>n. n)) = Some entered_recorder \<and>
   example_dumps (PDict [(''tools'', PObject ''set'')]) = Raise TypeError \<and>
   trace_event example_dumps ''agent_action'' (PDict [(''tools'', PObject ''set'')])
     (active_world (\<lambda>n. n)) = (Raise TypeError, active_world (\<lambda>n. n))"
proof -
  have a: "ctx_recorder (active_world (\<lambda>n. n)) = Some entered_recorder"
    by (simp add: active_world_def)
  have b: "example_dumps (PDict [(''tools'', PObject ''set'')]) = Raise TypeError"
    by (simp add: example_dumps_def)
  from trace_event_unserializable
         [where w = "active_world (\<lambda>n. n)" and dumps = example_dumps
            and data = "PDict [(''tools'', PObject ''set'')]" and kind = "''agent_action''", OF a b]
       a b
  show ?thesis by simp
qed

subsection \<open>Listing steps with a payload that does not decode\<close>

lemma set_select_steps [simp]:
  "set (select_steps rid w) = {row \<in> set (steps w). s_run_id row = rid}"
  by (auto simp: select_steps_def)

lemma length_select_steps [simp]:
  "length (select_steps rid w) = length (filter (\<lambda>row. s_run_id row = rid) (steps w))"
  by (simp add: select_steps_def)




subsection \<open>Primitive steps\<close>



lemma fold_max_bounded: "\<forall>x \<in> set xs. x \<le> a \<Longrightarrow> fold max xs (a::nat) = a"
  by (induction xs arbitrary: a) (simp_all add: max_absorb2)



lemma next_run_id_upd [simp]:
  "next_run_id (w\<lparr>ticks := t\<rparr>) = next_run_id w"
  "next_run_id (w\<lparr>timer_ticks := tt\<rparr>) = next_run_id w"
  "next_run_id (w\<lparr>ctx_recorder := c\<rparr>) = next_run_id w"
  "next_run_id (w\<lparr>steps := ss\<rparr>) = next_run_id w"
  "next_run_id (w\<lparr>steps_seq := q\<rparr>) = next_run_id w"
  by (simp_all add: next_run_id_def)

lemma next_step_id_upd [simp]:
  "next_step_id (w\<lparr>ticks := t\<rparr>) = next_step_id w"
  "next_step_id (w\<lparr>timer_ticks := tt\<rparr>) = next_step_id w"
  "next_step_id (w\<lparr>ctx_recorder := c\<rparr>) = next_step_id w"
  "next_step_id (w\<lparr>runs := rs\<rparr>) = next_step_id w"
  "next_step_id (w\<lparr>runs_seq := q\<rparr>) = next_step_id w"
  by (simp_all add: next_step_id_def)

lemma next_run_id_cong:
  "runs w' = runs w \<Longrightarrow> runs_seq w' = runs_seq w \<Longrightarrow> next_run_id w' = next_run_id w"
  by (simp add: next_run_id_def)

lemma next_step_id_cong:
  "steps w' = steps w \<Longrightarrow> steps_seq w' = steps_seq w \<Longrightarrow> next_step_id w' = next_step_id w"
  by (simp add: next_step_id_def)

lemma utcnow_fields [simp]:
  "fst (utcnow w) = clock w (ticks w)"
  "runs (snd (utcnow w)) = runs w"
  "steps (snd (utcnow w)) = steps w"
  "runs_seq (snd (utcnow w)) = runs_seq w"
  "steps_seq (snd (utcnow w)) = steps_seq w"
  "clock (snd (utcnow w)) = clock w"
  "ticks (snd (utcnow w)) = Suc (ticks w)"
  "timer (snd (utcnow w)) = timer w"
  "timer_ticks (snd (utcnow w)) = timer_ticks w"
  "git_head (snd (utcnow w)) = git_head w"
  "ctx_recorder (snd (utcnow w)) = ctx_recorder w"
  by (simp_all add: utcnow_def)

lemma time_time_fields [simp]:
  "fst (time_time w) = timer w (timer_ticks w)"
  "runs (snd (time_time w)) = runs w"
  "steps (snd (time_time w)) = steps w"
  "runs_seq (snd (time_time w)) = runs_seq w"
  "steps_seq (snd (time_time w)) = steps_seq w"
  "clock (snd (time_time w)) = clock w"
  "ticks (snd (time_time w)) = ticks w"
  "timer (snd (time_time w)) = timer w"
  "timer_ticks (snd (time_time w)) = Suc (timer_ticks w)"
  "git_head (snd (time_time w)) = git_head w"
  "ctx_recorder (snd (time_time w)) = ctx_recorder w"
  by (simp_all add: time_time_def)


lemma RunRecorder_init_fields [simp]:
  "conn_open (RunRecorder_init name sha)"
  "run_id (RunRecorder_init name sha) = None"
  "func_name (RunRecorder_init name sha) = name"
  by (simp_all add: RunRecorder_init_def)

lemma enter_open:
  "conn_open r \<Longrightarrow>
   enter r w =
     (Return (), r\<lparr>run_id := Some (next_run_id w)\<rparr>,
      w\<lparr>ticks := Suc (ticks w),
        runs := runs w @ [\<lparr>r_id = next_run_id w, r_func_name = func_name r,
                           r_start_ts = clock w (ticks w), r_end_ts = None,
                           r_git_sha = git_sha r\<rparr>],
        runs_seq := next_run_id w\<rparr>)"
  by (simp add: enter_def utcnow_def Let_def)


lemma exit_open:
  "conn_open r \<Longrightarrow>
   exit_rec r w =
     (Return (), r\<lparr>conn_open := False\<rparr>,
      w\<lparr>ticks := Suc (ticks w), runs := map (close_run (run_id r) (clock w (ticks w))) (runs w)\<rparr>)"
  by (simp add: exit_rec_def utcnow_def)


lemma trace_event_frame [simp]:
  "ctx_recorder (snd (trace_event dumps kind d w)) = ctx_recorder w"
  "runs (snd (trace_event dumps kind d w)) = runs w"
  "runs_seq (snd (trace_event dumps kind d w)) = runs_seq w"
  "clock (snd (trace_event dumps kind d w)) = clock w"
  "timer (snd (trace_event dumps kind d w)) = timer w"
  "timer_ticks (snd (trace_event dumps kind d w)) = timer_ticks w"
  "git_head (snd (trace_event dumps kind d w)) = git_head w"
  by (auto simp: trace_event_def get_current_recorder_def log_step_def utcnow_def Let_def
           split: option.splits outcome.splits if_splits)



lemma r_key_close_run [simp]: "r_key (close_run rid now row) = r_key row"
  by (simp add: r_key_def close_run_def)

lemma r_id_close_run [simp]: "r_id (close_run rid now row) = r_id row"
  by (simp add: close_run_def)

subsection \<open>The wrapper, step by step\<close>

lemma call_recorder_simps [simp]:
  "conn_open (call_recorder name w)"
  "run_id (call_recorder name w) = Some (next_run_id w)"
  "func_name (call_recorder name w) = name"
  by (simp_all add: call_recorder_def)

lemma entered_state_eq:
  "entered_state name w =
     w\<lparr>ticks := Suc (ticks w),
       runs := runs w @ [\<lparr>r_id = next_run_id w, r_func_name = name,
                           r_start_ts = clock w (ticks w), r_end_ts = None,
                           r_git_sha = git_sha (call_recorder name w)\<rparr>],
       runs_seq := next_run_id w,
       ctx_recorder := Some (call_recorder name w)\<rparr>"
  by (simp add: entered_state_def enter_open call_recorder_def Let_def)

lemma entered_state_fields [simp]:
  "ctx_recorder (entered_state name w) = Some (call_recorder name w)"
  "runs (entered_state name w) =
     runs w @ [\<lparr>r_id = next_run_id w, r_func_name = name,
                 r_start_ts = clock w (ticks w), r_end_ts = None,
                 r_git_sha = git_sha (call_recorder name w)\<rparr>]"
  "steps (entered_state name w) = steps w"
  "runs_seq (entered_state name w) = next_run_id w"
  "steps_seq (entered_state name w) = steps_seq w"
  "clock (entered_state name w) = clock w"
  "ticks (entered_state name w) = Suc (ticks w)"
  "timer (entered_state name w) = timer w"
  "timer_ticks (entered_state name w) = timer_ticks w"
  "git_head (entered_state name w) = git_head w"
  by (simp_all add: entered_state_eq)

lemma entered_state_next_step [simp]: "next_step_id (entered_state name w) = next_step_id w"
  by (simp add: next_step_id_def)

lemma wrapper_finish_fields [simp]:
  "ctx_recorder (wrapper_finish w v) = ctx_recorder w"
  "steps (wrapper_finish w v) = steps v"
  "runs (wrapper_finish w v) = map (close_run (Some (next_run_id w)) (clock v (ticks v))) (runs v)"
  "runs_seq (wrapper_finish w v) = runs_seq v"
  "steps_seq (wrapper_finish w v) = steps_seq v"
  "clock (wrapper_finish w v) = clock v"
  "ticks (wrapper_finish w v) = Suc (ticks v)"
  "timer (wrapper_finish w v) = timer v"
  "timer_ticks (wrapper_finish w v) = timer_ticks v"
  "git_head (wrapper_finish w v) = git_head v"
  by (simp_all add: wrapper_finish_def)

lemma wrapper_eq:
  "wrapper dumps name a k func w =
     (case with_block dumps a k func (entered_state name w) of
        (out, v) \<Rightarrow> (out, wrapper_finish w v))"
proof -
  let ?r = "RunRecorder_init name (Some (get_git_sha w))"
  have r1: "?r\<lparr>run_id := Some (next_run_id w)\<rparr> = call_recorder name w"
    by (simp add: call_recorder_def)
  have en: "enter ?r (w\<lparr>ctx_recorder := Some ?r\<rparr>) =
              (Return (), call_recorder name w,
               (w\<lparr>ctx_recorder := Some ?r\<rparr>)
                 \<lparr>ticks := Suc (ticks w),
                  runs := runs w @ [\<lparr>r_id = next_run_id w, r_func_name = name,
                                      r_start_ts = clock w (ticks w), r_end_ts = None,
                                      r_git_sha = git_sha ?r\<rparr>],
                  runs_seq := next_run_id w\<rparr>)"
    by (simp add: enter_open r1)
  have es: "((w\<lparr>ctx_recorder := Some ?r\<rparr>)
                 \<lparr>ticks := Suc (ticks w),
                  runs := runs w @ [\<lparr>r_id = next_run_id w, r_func_name = name,
                                      r_start_ts = clock w (ticks w), r_end_ts = None,
                                      r_git_sha = git_sha ?r\<rparr>],
                  runs_seq := next_run_id w\<rparr>)\<lparr>ctx_recorder := Some (call_recorder name w)\<rparr>
            = entered_state name w"
    by (simp add: entered_state_eq call_recorder_def)
  obtain out v where wb: "with_block dumps a k func (entered_state name w) = (out, v)"
    by (cases "with_block dumps a k func (entered_state name w)")
  show ?thesis
    unfolding wrapper_def Let_def en
    by (simp add: es wb exit_open wrapper_finish_def)
qed



subsection \<open>The slot is restored\<close>

lemma wrapper_ctx: "ctx_recorder (snd (wrapper dumps name a k func w)) = ctx_recorder w"
  by (simp add: wrapper_eq split: prod.splits)

lemma exec_ctx:
  "ctx_recorder (snd (exec_stmt dumps s w)) = ctx_recorder w"
  "ctx_recorder (snd (exec_stmts dumps ss w)) = ctx_recorder w"
proof (induction dumps s w and dumps ss w rule: exec_stmt_exec_stmts.induct)
  case (1 dumps kind data w)
  show ?case by simp
next
  case (2 dumps name args_s kwargs_s body result w)
  let ?f = "\<lambda>v. case exec_stmts dumps body v of
                  (Raise e, v') \<Rightarrow> (Raise e, v')
                | (Return u, v') \<Rightarrow> (Return result, v')"
  obtain out w' where e: "wrapper dumps name args_s kwargs_s ?f w = (out, w')"
    by (cases "wrapper dumps name args_s kwargs_s ?f w")
  with wrapper_ctx [of dumps name args_s kwargs_s ?f w] have "ctx_recorder w' = ctx_recorder w"
    by simp
  with e show ?case by (cases out) simp_all
next
  case (3 dumps e w)
  show ?case by simp
next
  case (4 dumps body handler w)
  obtain out w' where e: "exec_stmts dumps body w = (out, w')"
    by (cases "exec_stmts dumps body w")
  show ?case
  proof (cases out)
    case (Return u)
    with e 4(1) show ?thesis by simp
  next
    case (Raise x)
    with e 4(1) 4(2) [OF e [symmetric] Raise] show ?thesis by simp
  qed
next
  case (5 dumps w)
  show ?case by simp
next
  case (6 dumps s ss w)
  obtain out w' where e: "exec_stmt dumps s w = (out, w')"
    by (cases "exec_stmt dumps s w")
  show ?case
  proof (cases out)
    case (Return u)
    with e 6(1) 6(2) [OF e [symmetric] Return] show ?thesis by simp
  next
    case (Raise x)
    with e 6(1) show ?thesis by simp
  qed
qed

subsection \<open>Relations that every step of the code respects\<close>






subsection \<open>The relation \<open>evolves\<close>\<close>








subsection \<open>A wrapped callable that raises\<close>








subsection \<open>Closed runs are kept\<close>








subsection \<open>Every traced call closes its run\<close>


subsection \<open>The end timestamp of a run\<close>






subsection \<open>Referential integrity\<close>

lemma ctx_run_id_simps [simp]:
  "ctx_run_id (snd (time_time v)) = ctx_run_id v"
  "ctx_run_id (snd (trace_event dumps kind d v)) = ctx_run_id v"
  "ctx_run_id (wrapper_finish w v) = ctx_run_id w"
  "ctx_run_id (entered_state name w) = Some (next_run_id w)"
  by (simp_all add: ctx_run_id_def)











end
